theory Spec2Isabelle
  imports Main "HOL-Library.Sublist" "HOL-Library.AList"
begin

chapter \<open>The program\<close>

section \<open>Strings as the program sees them\<close>

text \<open>
  A JavaScript string is modelled as a \<open>string\<close> (a list of 8-bit characters, that is the
  code units below 256). Numbers that the program only ever obtains from \<open>parseInt\<close>,
  from lengths and from sums of such values are modelled as mathematical integers, with
  \<open>NaN\<close> as a separate value where the program can produce it.
\<close>

definition isWhitespace :: "char \<Rightarrow> bool" where
  \<comment> \<open>the characters that \<open>String.prototype.trim\<close> strips and that \<open>\s\<close> matches:
      TAB, LF, VT, FF, CR, SPACE, NBSP\<close>
  "isWhitespace c = (c \<in> {CHR 0x09, CHR 0x0A, CHR 0x0B, CHR 0x0C, CHR 0x0D, CHR 0x20, CHR 0xA0})"

definition trim :: "string \<Rightarrow> string" where
  "trim s = rev (dropWhile isWhitespace (rev (dropWhile isWhitespace s)))"

fun includesStr :: "string \<Rightarrow> string \<Rightarrow> bool" where
  \<comment> \<open>\<open>s.includes(t)\<close>: \<open>t\<close> occurs in \<open>s\<close> as a contiguous substring\<close>
  "includesStr [] t = (t = [])"
| "includesStr (c # cs) t = (prefix t (c # cs) \<or> includesStr cs t)"

abbreviation startsWith :: "string \<Rightarrow> string \<Rightarrow> bool" where
  \<comment> \<open>\<open>s.startsWith(t)\<close>\<close>
  "startsWith s t \<equiv> prefix t s"

fun splitOn :: "char \<Rightarrow> string \<Rightarrow> string list" where
  \<comment> \<open>\<open>s.split(sep)\<close> for a one-character separator: always at least one piece\<close>
  "splitOn sep [] = [[]]"
| "splitOn sep (c # cs) =
     (if c = sep then [] # splitOn sep cs
      else (case splitOn sep cs of [] \<Rightarrow> [[c]] | p # ps \<Rightarrow> (c # p) # ps))"

fun joinWith :: "string \<Rightarrow> string list \<Rightarrow> string" where
  "joinWith sep [] = []"
| "joinWith sep [x] = x"
| "joinWith sep (x # y # ys) = x @ sep @ joinWith sep (y # ys)"

section \<open>Errors\<close>

datatype error =
    PathNotAllowed            \<comment> \<open>'Repository path is not in an allowed directory'\<close>
  | InvalidPathCharacters     \<comment> \<open>'Invalid characters in repository path'\<close>
  | InvalidFilePath           \<comment> \<open>'Invalid characters in file path'\<close>
  | InvalidParameter          \<comment> \<open>'Invalid characters in parameter'\<close>
  | RepositoryTooLarge nat    \<comment> \<open>'Repository too large (...MB)', with the measured size\<close>
  | ExecFailed string         \<comment> \<open>the subprocess call rejected (exit code, timeout, buffer)\<close>

section \<open>Parameter sanitizers\<close>

definition isGitMeta :: "char \<Rightarrow> bool" where
  \<comment> \<open>route.ts, the class of \<open>/[;&|`$(){}\\[\]]/g\<close>:
      ; & | ` $ ( ) { } \ [ ]\<close>
  "isGitMeta c = (c \<in> {CHR '';'', CHR ''&'', CHR ''|'', CHR ''`'', CHR ''$'', CHR ''('',
                       CHR '')'', CHR ''{'', CHR ''}'', CHR 0x5C, CHR ''['', CHR '']''})"

definition sanitizeGitParameter :: "string \<Rightarrow> error + string" where
  "sanitizeGitParameter param =
     (let sanitized = trim (filter (\<lambda>c. \<not> isGitMeta c) param)
      in if sanitized \<noteq> param then Inl InvalidParameter else Inr sanitized)"

definition isFilePathClass :: "char \<Rightarrow> bool" where
  \<comment> \<open>the parser's \<open>/[;&|`$(){}\\[\\]]/g\<close>: the class closes at the first unescaped
      bracket, so it holds ; & | ` $ ( ) { } \ [ and the pattern goes on with one literal
      closing bracket\<close>
  "isFilePathClass c = (c \<in> {CHR '';'', CHR ''&'', CHR ''|'', CHR ''`'', CHR ''$'', CHR ''('',
                             CHR '')'', CHR ''{'', CHR ''}'', CHR 0x5C, CHR ''[''})"

fun replaceFilePathPattern :: "string \<Rightarrow> string" where
  \<comment> \<open>\<open>.replace(/[;&|`$(){}\\[\\]]/g, '')\<close>: every leftmost match, a class character
      directly followed by a closing bracket, is deleted\<close>
  "replaceFilePathPattern (a # b # cs) =
     (if isFilePathClass a \<and> b = CHR '']'' then replaceFilePathPattern cs
      else a # replaceFilePathPattern (b # cs))"
| "replaceFilePathPattern cs = cs"

definition sanitizeFilePath :: "string \<Rightarrow> error + string" where
  "sanitizeFilePath filePath =
     (let sanitized = trim (replaceFilePathPattern filePath)
      in if sanitized \<noteq> filePath then Inl InvalidFilePath else Inr sanitized)"

section \<open>POSIX path functions of the runtime\<close>

text \<open>
  The program calls \<open>path.normalize\<close>, \<open>path.resolve\<close>, \<open>path.join\<close> and
  \<open>path.extname\<close> of the Node.js runtime (POSIX flavour: the allowed bases are
  \<open>/tmp\<close> and \<open>/var/tmp\<close>). They are modelled on path segments: empty segments and
  \<open>.\<close> are dropped, \<open>..\<close> removes the segment before it, and above the root it is
  dropped (absolute path) or kept (relative path).
\<close>

fun normalizeSegments :: "bool \<Rightarrow> string list \<Rightarrow> string list \<Rightarrow> string list" where
  "normalizeSegments allowAboveRoot res [] = res"
| "normalizeSegments allowAboveRoot res (seg # segs) =
     (if seg = [] \<or> seg = ''.'' then normalizeSegments allowAboveRoot res segs
      else if seg = ''..'' then
        (if res \<noteq> [] \<and> last res \<noteq> ''..''
         then normalizeSegments allowAboveRoot (butlast res) segs
         else if allowAboveRoot then normalizeSegments allowAboveRoot (res @ [''..'']) segs
         else normalizeSegments allowAboveRoot res segs)
      else normalizeSegments allowAboveRoot (res @ [seg]) segs)"

definition normalizeString :: "string \<Rightarrow> bool \<Rightarrow> string" where
  "normalizeString path allowAboveRoot =
     joinWith ''/'' (normalizeSegments allowAboveRoot [] (splitOn CHR ''/'' path))"

definition posixNormalize :: "string \<Rightarrow> string" where
  "posixNormalize path =
     (if path = [] then ''.''
      else
        let isAbsolute = (hd path = CHR ''/'');
            trailingSeparator = (last path = CHR ''/'');
            p = normalizeString path (\<not> isAbsolute)
        in if p = [] then (if isAbsolute then ''/'' else if trailingSeparator then ''./'' else ''.'')
           else let p' = (if trailingSeparator then p @ ''/'' else p)
                in if isAbsolute then ''/'' @ p' else p')"

definition resolveStep :: "string \<Rightarrow> string \<times> bool \<Rightarrow> string \<times> bool" where
  \<comment> \<open>one round of the loop of \<open>path.resolve\<close>: prepend the next argument unless the
      path is absolute already or the argument is empty\<close>
  "resolveStep p acc =
     (case acc of (resolvedPath, resolvedAbsolute) \<Rightarrow>
        if resolvedAbsolute \<or> p = [] then acc
        else (p @ ''/'' @ resolvedPath, hd p = CHR ''/''))"

definition posixResolve :: "string \<Rightarrow> string \<Rightarrow> string" where
  \<comment> \<open>\<open>path.resolve(p)\<close> in a process whose working directory is \<open>cwd\<close>\<close>
  "posixResolve cwd p =
     (case resolveStep cwd (resolveStep p ([], False)) of (resolvedPath, resolvedAbsolute) \<Rightarrow>
        let r = normalizeString resolvedPath (\<not> resolvedAbsolute)
        in if resolvedAbsolute then ''/'' @ r else if r \<noteq> [] then r else ''.'')"

definition posixJoin :: "string \<Rightarrow> string \<Rightarrow> string" where
  "posixJoin a b =
     (let joined = joinWith ''/'' (filter (\<lambda>s. s \<noteq> []) [a, b])
      in if joined = [] then ''.'' else posixNormalize joined)"

definition extname :: "string \<Rightarrow> string" where
  \<comment> \<open>\<open>path.extname\<close>: from the last dot of the last path component (trailing slashes
      set aside) to its end; empty when there is no dot, when the dot is the component's
      first character, and for the component \<open>..\<close>\<close>
  "extname p =
     (let trimmed = rev (dropWhile (\<lambda>c. c = CHR ''/'') (rev p));
          base = rev (takeWhile (\<lambda>c. c \<noteq> CHR ''/'') (rev trimmed));
          ext = rev (takeWhile (\<lambda>c. c \<noteq> CHR ''.'') (rev base));
          stem = take (length base - length ext - 1) base
      in if CHR ''.'' \<notin> set base \<or> stem = [] \<or> base = ''..'' then [] else CHR ''.'' # ext)"

section \<open>The world outside the program\<close>

datatype fsnode =
    FileNode "nat option"              \<comment> \<open>a regular file and what \<open>fs.stat\<close> gives as its size\<close>
  | DirNode "(string \<times> fsnode) list"   \<comment> \<open>a directory that \<open>fs.readdir\<close> can list\<close>
  | UnreadableDir                      \<comment> \<open>a directory on which \<open>fs.readdir\<close> throws\<close>
  | OtherNode                          \<comment> \<open>neither a file nor a directory (link, socket, ...)\<close>

record world =
  homedir :: string                                      \<comment> \<open>\<open>os.homedir()\<close>\<close>
  cwd :: string                                          \<comment> \<open>\<open>process.cwd()\<close>\<close>
  fsLookup :: "string \<Rightarrow> fsnode option"                   \<comment> \<open>what lies at a path, if anything\<close>
  access :: "string \<Rightarrow> bool"                            \<comment> \<open>\<open>fs.access\<close> resolves\<close>
  statSize :: "string \<Rightarrow> nat option"                    \<comment> \<open>\<open>fs.stat(p).size\<close>, \<open>None\<close> when it throws\<close>
  readFile :: "string \<Rightarrow> string option"                 \<comment> \<open>\<open>fs.readFile(p, 'utf-8')\<close>\<close>
  exec :: "string \<Rightarrow> string \<Rightarrow> error + (string \<times> string)"
     \<comment> \<open>\<open>execAsync(command, {cwd})\<close>: stdout and stderr, or the rejection\<close>

section \<open>Repository path sanitizer\<close>

definition ALLOWED_BASE_DIRS :: "world \<Rightarrow> string list" where
  "ALLOWED_BASE_DIRS w = [''/tmp'', ''/var/tmp'', homedir w, cwd w]"

definition sanitizeRepositoryPath :: "world \<Rightarrow> string \<Rightarrow> error + string" where
  "sanitizeRepositoryPath w repoPath =
     (let normalizedPath = posixResolve (cwd w) (posixNormalize repoPath);
          isAllowed = list_ex (\<lambda>baseDir. startsWith normalizedPath (posixResolve (cwd w) baseDir))
                        (ALLOWED_BASE_DIRS w)
      in if \<not> isAllowed then Inl PathNotAllowed
         else if includesStr normalizedPath ''..'' \<or> includesStr normalizedPath ''~''
         then Inl InvalidPathCharacters
         else Inr normalizedPath)"

section \<open>Numbers and their text\<close>

datatype jsnum = NaN | Num int

definition isDigit :: "char \<Rightarrow> bool" where
  \<comment> \<open>\<open>\d\<close>\<close>
  "isDigit c = (48 \<le> (of_char c :: nat) \<and> (of_char c :: nat) \<le> 57)"

definition digitValue :: "char \<Rightarrow> nat" where
  \<comment> \<open>the value of a digit or letter as a numeral of some radix; 36 for anything else\<close>
  "digitValue c =
     (let n = (of_char c :: nat)
      in if 48 \<le> n \<and> n \<le> 57 then n - 48
         else if 97 \<le> n \<and> n \<le> 122 then n - 87
         else if 65 \<le> n \<and> n \<le> 90 then n - 55
         else 36)"

definition radixValue :: "nat \<Rightarrow> string \<Rightarrow> int" where
  "radixValue radix ds = foldl (\<lambda>acc c. acc * int radix + int (digitValue c)) 0 ds"

definition parseInt :: "string \<Rightarrow> jsnum" where
  \<comment> \<open>\<open>parseInt(s)\<close> without a radix: leading whitespace, a sign, an optional
      \<open>0x\<close> prefix, then the longest run of digits; \<open>NaN\<close> when that run is empty\<close>
  "parseInt s =
     (let s1 = dropWhile isWhitespace s;
          negative = (s1 \<noteq> [] \<and> hd s1 = CHR ''-'');
          s2 = (if s1 \<noteq> [] \<and> (hd s1 = CHR ''-'' \<or> hd s1 = CHR ''+'') then tl s1 else s1);
          hex = (prefix ''0x'' s2 \<or> prefix ''0X'' s2);
          radix = (if hex then 16 else 10);
          s3 = (if hex then drop 2 s2 else s2);
          z = takeWhile (\<lambda>c. digitValue c < radix) s3
      in if z = [] then NaN
         else Num ((if negative then - 1 else 1) * radixValue radix z))"

definition parseIntOpt :: "string option \<Rightarrow> jsnum" where
  \<comment> \<open>\<open>parseInt\<close> of a value that may be \<open>undefined\<close>\<close>
  "parseIntOpt v = (case v of None \<Rightarrow> NaN | Some s \<Rightarrow> parseInt s)"

definition orZero :: "jsnum \<Rightarrow> int" where
  \<comment> \<open>\<open>n || 0\<close>\<close>
  "orZero n = (case n of NaN \<Rightarrow> 0 | Num k \<Rightarrow> k)"

definition jsTimes :: "jsnum \<Rightarrow> int \<Rightarrow> jsnum" where
  "jsTimes n k = (case n of NaN \<Rightarrow> NaN | Num a \<Rightarrow> Num (a * k))"

definition jsMax :: "jsnum \<Rightarrow> jsnum \<Rightarrow> jsnum" where
  \<comment> \<open>\<open>Math.max\<close>\<close>
  "jsMax a b = (case (a, b) of (Num x, Num y) \<Rightarrow> Num (max x y) | _ \<Rightarrow> NaN)"

definition jsLe :: "jsnum \<Rightarrow> jsnum \<Rightarrow> bool" where
  \<comment> \<open>\<open>a <= b\<close>: false as soon as one side is \<open>NaN\<close>\<close>
  "jsLe a b = (case (a, b) of (Num x, Num y) \<Rightarrow> x \<le> y | _ \<Rightarrow> False)"

definition jsGt :: "jsnum \<Rightarrow> int \<Rightarrow> bool" where
  "jsGt a k = (case a of NaN \<Rightarrow> False | Num x \<Rightarrow> x > k)"

definition jsLeInt :: "jsnum \<Rightarrow> int \<Rightarrow> bool" where
  "jsLeInt a k = (case a of NaN \<Rightarrow> False | Num x \<Rightarrow> x \<le> k)"

fun showNat :: "nat \<Rightarrow> string" where
  \<comment> \<open>the decimal text of a non-negative integer, as a template literal prints it\<close>
  "showNat n =
     (if n < 10 then [char_of (48 + n)]
      else showNat (n div 10) @ [char_of (48 + n mod 10)])"

declare showNat.simps [simp del]

section \<open>Regular expressions of the history parser\<close>

definition matchesNumstat :: "string \<Rightarrow> bool" where
  \<comment> \<open>\<open>line.match(/^\d+\s+\d+\s+/)\<close>\<close>
  "matchesNumstat line =
     (let r1 = dropWhile isDigit line;
          r2 = dropWhile isWhitespace r1;
          r3 = dropWhile isDigit r2
      in takeWhile isDigit line \<noteq> [] \<and> takeWhile isWhitespace r1 \<noteq> []
         \<and> takeWhile isDigit r2 \<noteq> [] \<and> takeWhile isWhitespace r3 \<noteq> [])"

function splitWhitespace :: "string \<Rightarrow> string list" where
  \<comment> \<open>\<open>s.split(/\s+/)\<close>: the pieces between maximal runs of whitespace, empty pieces at
      either end included\<close>
  "splitWhitespace [] = [[]]"
| "splitWhitespace (c # cs) =
     (if isWhitespace c then [] # splitWhitespace (dropWhile isWhitespace cs)
      else (case splitWhitespace cs of [] \<Rightarrow> [[c]] | p # ps \<Rightarrow> (c # p) # ps))"
  by pat_completeness auto
termination
  by (relation "measure length") (auto simp: le_imp_less_Suc length_dropWhile_le)

definition stripLeadingCount :: "string \<Rightarrow> string" where
  \<comment> \<open>\<open>s.replace(/^\d+\s+/, '')\<close>\<close>
  "stripLeadingCount s =
     (let r1 = dropWhile isDigit s
      in if takeWhile isDigit s \<noteq> [] \<and> takeWhile isWhitespace r1 \<noteq> []
         then dropWhile isWhitespace r1 else s)"

section \<open>Records of the history parser\<close>

record CommitData =
  sha :: string
  message :: string
  author :: string
  authorEmail :: string
  date :: jsnum
  filesChanged :: "string list"
  linesAdded :: int
  linesDeleted :: int
  tags :: "string list"

record FileData =
  path :: string
  extension :: string
  firstSeen :: jsnum
  lastModified :: jsnum
  totalChanges :: nat
  currentSize :: nat
  isDeleted :: bool
  language :: "string option"
  maxComplexity :: "int option"      \<comment> \<open>set by the enrichment only\<close>
  avgComplexity :: "int option"      \<comment> \<open>set by the enrichment only\<close>
  primaryAuthors :: "string list option"   \<comment> \<open>set by the enrichment only\<close>

definition toLowerCase :: "string \<Rightarrow> string" where
  "toLowerCase s =
     map (\<lambda>c. let n = (of_char c :: nat)
               in if (65 \<le> n \<and> n \<le> 90) \<or> (192 \<le> n \<and> n \<le> 222 \<and> n \<noteq> 215)
                  then char_of (n + 32) else c) s"

definition languageMap :: "(string \<times> string) list" where
  "languageMap =
     [(''.js'', ''javascript''), (''.jsx'', ''javascript''), (''.ts'', ''typescript''),
      (''.tsx'', ''typescript''), (''.py'', ''python''), (''.java'', ''java''),
      (''.cpp'', ''cpp''), (''.c'', ''c''), (''.cs'', ''csharp''), (''.php'', ''php''),
      (''.rb'', ''ruby''), (''.go'', ''go''), (''.rs'', ''rust''), (''.swift'', ''swift''),
      (''.kt'', ''kotlin''), (''.scala'', ''scala''), (''.sh'', ''shell''), (''.sql'', ''sql''),
      (''.html'', ''html''), (''.css'', ''css''), (''.scss'', ''scss''), (''.sass'', ''sass''),
      (''.less'', ''less''), (''.json'', ''json''), (''.xml'', ''xml''), (''.yaml'', ''yaml''),
      (''.yml'', ''yaml''), (''.md'', ''markdown''), (''.dockerfile'', ''docker''),
      (''.r'', ''r''), (''.m'', ''matlab''), (''.pl'', ''perl''), (''.lua'', ''lua''),
      (''.vim'', ''vim'')]"

definition detectLanguage :: "string \<Rightarrow> string option" where
  "detectLanguage filePath = map_of languageMap (toLowerCase (extname filePath))"

section \<open>The loop of the history parser\<close>

datatype warning =
    MalformedCommitLine string     \<comment> \<open>\<open>console.warn('Malformed commit line:', line)\<close>\<close>
  | SkippingInvalidPath string     \<comment> \<open>\<open>console.warn('Skipping file with invalid path:', filePath, error)\<close>\<close>

record parseState =
  lineIndex :: nat                          \<comment> \<open>\<open>i\<close>\<close>
  currentCommit :: "CommitData option"
  commits :: "CommitData list"
  fileMap :: "(string \<times> FileData) list"      \<comment> \<open>a \<open>Map\<close>, in insertion order\<close>
  warnings :: "warning list"                \<comment> \<open>what the loop has written to the console\<close>

definition pushCommit :: "CommitData option \<Rightarrow> CommitData list \<Rightarrow> CommitData list" where
  \<comment> \<open>\<open>if (currentCommit) commits.push(currentCommit)\<close>\<close>
  "pushCommit cur cs = (case cur of None \<Rightarrow> cs | Some c \<Rightarrow> cs @ [c])"

definition newCommit :: "string list \<Rightarrow> CommitData" where
  \<comment> \<open>the record built from the five fields of a header line\<close>
  "newCommit parts =
     \<lparr>sha = parts ! 0, message = trim (parts ! 1), author = trim (parts ! 2),
      authorEmail = trim (parts ! 3), date = jsTimes (parseInt (parts ! 4)) 1000,
      filesChanged = [], linesAdded = 0, linesDeleted = 0, tags = []\<rparr>"

definition trackFile :: "string \<Rightarrow> jsnum \<Rightarrow> (string \<times> FileData) list \<Rightarrow> (string \<times> FileData) list" where
  \<comment> \<open>the update of \<open>fileMap\<close> for one file line of a commit dated \<open>commitDate\<close>\<close>
  "trackFile sanitizedFilePath commitDate fm =
     (case map_of fm sanitizedFilePath of
        None \<Rightarrow>
          AList.update sanitizedFilePath
            \<lparr>path = sanitizedFilePath, extension = extname sanitizedFilePath,
             firstSeen = commitDate, lastModified = commitDate, totalChanges = 1,
             currentSize = 0, isDeleted = False, language = detectLanguage sanitizedFilePath,
             maxComplexity = None, avgComplexity = None, primaryAuthors = None\<rparr> fm
      | Some fileData \<Rightarrow>
          AList.update sanitizedFilePath
            (fileData\<lparr>lastModified := jsMax (lastModified fileData) commitDate,
                      totalChanges := totalChanges fileData + 1\<rparr>) fm)"

definition fileLine :: "parseState \<Rightarrow> CommitData \<Rightarrow> string list \<Rightarrow> parseState" where
  \<comment> \<open>the parser's \<open>try\<close> block for a file-statistics line whose tab-separated \<open>parts\<close>
      are at least three; in the \<open>catch\<close> branch \<open>continue\<close> leaves \<open>i\<close> as it is\<close>
  "fileLine st cur parts =
     (case sanitizeFilePath (parts ! 2) of
        Inl e \<Rightarrow> st\<lparr>warnings := warnings st @ [SkippingInvalidPath (parts ! 2)]\<rparr>
      | Inr sanitizedFilePath \<Rightarrow>
          let tokens = splitWhitespace (parts ! 0);   \<comment> \<open>never empty\<close>
              added = hd tokens;
              deleted = (if length tokens > 1 then Some (tokens ! 1) else None);
              cur' = cur\<lparr>filesChanged := filesChanged cur @ [sanitizedFilePath],
                         linesAdded := linesAdded cur + orZero (parseInt added),
                         linesDeleted := linesDeleted cur + orZero (parseIntOpt deleted)\<rparr>
          in st\<lparr>currentCommit := Some cur',
                fileMap := trackFile sanitizedFilePath (date cur') (fileMap st),
                lineIndex := lineIndex st + 1\<rparr>)"

definition parseStep :: "string list \<Rightarrow> parseState \<Rightarrow> parseState" where
  \<comment> \<open>one round of \<open>while (i < lines.length)\<close>, for \<open>i\<close> in range\<close>
  "parseStep lines st =
     (let line = trim (lines ! lineIndex st)
      in if includesStr line ''|'' \<and> length (splitOn CHR ''|'' line) = 5 then
           (let st1 = st\<lparr>commits := pushCommit (currentCommit st) (commits st)\<rparr>;
                parts = splitOn CHR ''|'' line
            in if length parts \<noteq> 5
               then st1\<lparr>warnings := warnings st1 @ [MalformedCommitLine line]\<rparr>
               else st1\<lparr>currentCommit := Some (newCommit parts),
                        lineIndex := lineIndex st + 1\<rparr>)
         else
           (case currentCommit st of
              Some cur \<Rightarrow>
                if line \<noteq> [] \<and> matchesNumstat line then
                  (let parts = splitOn (CHR 0x09) line
                   in if length parts \<ge> 3 then fileLine st cur parts
                      else st\<lparr>lineIndex := lineIndex st + 1\<rparr>)
                else st\<lparr>lineIndex := lineIndex st + 1\<rparr>
            | None \<Rightarrow> st\<lparr>lineIndex := lineIndex st + 1\<rparr>))"

partial_function (option) parseLoop :: "string list \<Rightarrow> parseState \<Rightarrow> parseState option" where
  "parseLoop lines st =
     (if lineIndex st < length lines then parseLoop lines (parseStep lines st) else Some st)"

definition initialState :: parseState where
  "initialState = \<lparr>lineIndex = 0, currentCommit = None, commits = [], fileMap = [], warnings = []\<rparr>"

record parsed =
  parsedCommits :: "CommitData list"
  parsedFiles :: "(string \<times> FileData) list"
  parsedWarnings :: "warning list"

definition parseLines :: "string \<Rightarrow> parsed option" where
  \<comment> \<open>the parser from \<open>logOutput.split('\n')\<close> to the push of the last commit;
      \<open>None\<close> when the loop never ends\<close>
  "parseLines logOutput =
     (case parseLoop (splitOn (CHR 0x0A) logOutput) initialState of
        None \<Rightarrow> None
      | Some st \<Rightarrow>
          Some \<lparr>parsedCommits = pushCommit (currentCommit st) (commits st),
                parsedFiles = fileMap st, parsedWarnings = warnings st\<rparr>)"

declare parseLoop.simps [code]

section \<open>Complexity scorer\<close>

definition isWordChar :: "char \<Rightarrow> bool" where
  \<comment> \<open>\<open>\w\<close>: a letter, a digit or the underscore\<close>
  "isWordChar c =
     (let n = (of_char c :: nat)
      in (48 \<le> n \<and> n \<le> 57) \<or> (65 \<le> n \<and> n \<le> 90) \<or> (97 \<le> n \<and> n \<le> 122) \<or> n = 95)"

definition matchesHere :: "bool \<Rightarrow> string \<Rightarrow> string \<Rightarrow> bool" where
  \<comment> \<open>\<open>\bkw\b\<close> matches at the head of \<open>s\<close>, where \<open>prevWord\<close> tells whether the
      character before it is a word character; \<open>kw\<close> is made of word characters\<close>
  "matchesHere prevWord kw s =
     (\<not> prevWord \<and> prefix kw s
      \<and> (case drop (length kw) s of [] \<Rightarrow> True | d # _ \<Rightarrow> \<not> isWordChar d))"

fun countMatches :: "string list \<Rightarrow> bool \<Rightarrow> string \<Rightarrow> nat" where
  \<comment> \<open>\<open>(content.match(/\bk1\b|\bk2\b|.../g) || []).length\<close>: scan from the left, take
      the first alternative that matches at a position, go on behind the match\<close>
  "countMatches kws prevWord [] = 0"
| "countMatches kws prevWord (c # cs) =
     (case find (\<lambda>kw. matchesHere prevWord kw (c # cs)) kws of
        Some kw \<Rightarrow> 1 + countMatches kws True (drop (length kw - 1) cs)
      | None \<Rightarrow> countMatches kws (isWordChar c) cs)"

definition controlPatterns :: "string list" where
  "controlPatterns =
     [''if'', ''else'', ''while'', ''for'', ''switch'', ''case'', ''try'', ''catch'',
      ''function'', ''class'', ''return'']"

definition countChar :: "char \<Rightarrow> string \<Rightarrow> nat" where
  \<comment> \<open>\<open>(content.match(/\{/g) || []).length\<close> for one character\<close>
  "countChar c content = length (filter (\<lambda>d. d = c) content)"

definition calculateComplexity :: "string \<Rightarrow> string option \<Rightarrow> int" where
  "calculateComplexity content lang =
     (let complexity = (1::int);
          complexity = fold (\<lambda>pattern acc.
                               let n = countMatches [pattern] False content
                               in if n \<noteq> 0 then acc + int n else acc)
                            controlPatterns complexity;
          maxNesting = max (int (countChar (CHR ''{'') content) - int (countChar (CHR ''}'') content)) 0;
          complexity = complexity + maxNesting * 2;
          complexity =
            (if lang = Some ''typescript'' \<or> lang = Some ''javascript''
             then (let n = countMatches [''async'', ''await''] False content
                   in if n \<noteq> 0 then complexity + int n else complexity)
             else complexity)
      in min complexity 100)"

section \<open>Repository size guard\<close>

fun dirSize :: "fsnode \<Rightarrow> nat"
  and sumItems :: "(string \<times> fsnode) list \<Rightarrow> nat \<Rightarrow> nat" where
  \<comment> \<open>the body of \<open>getDirectorySize\<close> on what lies at \<open>dirPath\<close>: a failing
      \<open>readdir\<close> leaves the total at 0, a failing \<open>stat\<close> ends the loop with the total
      reached so far\<close>
  "dirSize (DirNode items) = sumItems items 0"
| "dirSize (FileNode sz) = 0"
| "dirSize UnreadableDir = 0"
| "dirSize OtherNode = 0"
| "sumItems [] totalSize = totalSize"
| "sumItems ((name, DirNode sub) # rest) totalSize =
     sumItems rest (totalSize + dirSize (DirNode sub))"
| "sumItems ((name, UnreadableDir) # rest) totalSize =
     sumItems rest (totalSize + dirSize UnreadableDir)"
| "sumItems ((name, FileNode (Some sz)) # rest) totalSize = sumItems rest (totalSize + sz)"
| "sumItems ((name, FileNode None) # rest) totalSize = totalSize"
| "sumItems ((name, OtherNode) # rest) totalSize = sumItems rest totalSize"

definition getDirectorySize :: "world \<Rightarrow> string \<Rightarrow> nat" where
  "getDirectorySize w dirPath =
     (case fsLookup w dirPath of None \<Rightarrow> 0 | Some node \<Rightarrow> dirSize node)"

record repoSize =
  sizeBytes :: nat
  estimatedCommits :: nat

definition checkRepositorySize :: "world \<Rightarrow> string \<Rightarrow> repoSize" where
  "checkRepositorySize w repoPath =
     (let gitDirPath = posixJoin repoPath ''.git'';
          stats = getDirectorySize w gitDirPath
      in \<lparr>sizeBytes = stats, estimatedCommits = stats div 1024\<rparr>)"

section \<open>History parser: the whole run\<close>

definition MAX_REPO_SIZE :: nat where
  "MAX_REPO_SIZE = 50 * 1024 * 1024"

definition MAX_COMMITS :: nat where
  "MAX_COMMITS = 1000"

definition logCommand :: "nat \<Rightarrow> string" where
  \<open>logCommand commitLimit =
     ''git log --pretty=format:"%H|%s|%an|%ae|%ct" --numstat --max-count='' @ showNat commitLimit\<close>

definition authorCommand :: "string \<Rightarrow> string" where
  \<open>authorCommand sanitizedFilePath =
     ''git log --format="%an" -- "'' @ sanitizedFilePath @ ''" | sort | uniq -c | sort -nr | head -3''\<close>

definition enrichSize :: "world \<Rightarrow> string \<Rightarrow> string \<times> FileData \<Rightarrow> string \<times> FileData" where
  \<comment> \<open>the size and complexity pass for one entry of \<open>fileMap\<close>\<close>
  "enrichSize w sanitizedRepoPath entry =
     (case entry of (filePath, fileData) \<Rightarrow>
        let fullPath = posixJoin sanitizedRepoPath filePath;
            resolvedPath = posixResolve (cwd w) fullPath
        in if \<not> startsWith resolvedPath sanitizedRepoPath then entry
           else
             (case statSize w fullPath of
                None \<Rightarrow>
                  (filePath, fileData\<lparr>isDeleted := True, currentSize := 0,
                                       maxComplexity := Some 0, avgComplexity := Some 0\<rparr>)
              | Some fileSize \<Rightarrow>
                  let fd = fileData\<lparr>currentSize := fileSize\<rparr>
                  in if fileSize > 1024 * 1024
                     then (filePath, fd\<lparr>maxComplexity := Some 1, avgComplexity := Some 1\<rparr>)
                     else
                       (case readFile w fullPath of
                          Some content \<Rightarrow>
                            let complexity = calculateComplexity content (language fd)
                            in (filePath, fd\<lparr>maxComplexity := Some complexity,
                                              avgComplexity := Some complexity\<rparr>)
                        | None \<Rightarrow>
                            (filePath, fd\<lparr>maxComplexity := Some 1, avgComplexity := Some 1\<rparr>))))"

definition parseAuthors :: "string \<Rightarrow> string list" where
  "parseAuthors authorOutput =
     filter (\<lambda>a. length a > 0 \<and> length a < 100)
       (map (\<lambda>l. stripLeadingCount (trim l)) (splitOn (CHR 0x0A) authorOutput))"

definition enrichAuthors :: "world \<Rightarrow> string \<Rightarrow> string \<times> FileData \<Rightarrow> string \<times> FileData" where
  \<comment> \<open>the author pass for one entry of \<open>fileMap\<close>\<close>
  "enrichAuthors w sanitizedRepoPath entry =
     (case entry of (filePath, fileData) \<Rightarrow>
        (case sanitizeFilePath filePath of
           Inl e \<Rightarrow> (filePath, fileData\<lparr>primaryAuthors := Some []\<rparr>)
         | Inr sanitizedFilePath \<Rightarrow>
             (case exec w (authorCommand sanitizedFilePath) sanitizedRepoPath of
                Inl e \<Rightarrow> (filePath, fileData\<lparr>primaryAuthors := Some []\<rparr>)
              | Inr (authorOutput, err) \<Rightarrow>
                  (filePath, fileData\<lparr>primaryAuthors := Some (parseAuthors authorOutput)\<rparr>))))"

definition authorCommands :: "(string \<times> FileData) list \<Rightarrow> string list" where
  \<comment> \<open>the commands that the author pass hands to the subprocess\<close>
  "authorCommands fm =
     concat (map (\<lambda>(filePath, fileData).
                    case sanitizeFilePath filePath of Inl e \<Rightarrow> []
                    | Inr sanitizedFilePath \<Rightarrow> [authorCommand sanitizedFilePath]) fm)"

record history =
  commitsOut :: "CommitData list"
  filesOut :: "(string \<times> FileData) list"

record run =
  executed :: "string list"
    \<comment> \<open>the commands handed to \<open>execAsync\<close>, in order\<close>
  outcome :: "(error + history) option"
    \<comment> \<open>the error thrown or the value returned; \<open>None\<close> when the run never returns\<close>

definition parseGitLog :: "world \<Rightarrow> string \<Rightarrow> run" where
  "parseGitLog w repoPath =
     (case sanitizeRepositoryPath w repoPath of
        Inl e \<Rightarrow> \<lparr>executed = [], outcome = Some (Inl e)\<rparr>
      | Inr sanitizedRepoPath \<Rightarrow>
          let measured = checkRepositorySize w sanitizedRepoPath
          in if sizeBytes measured > MAX_REPO_SIZE
             then \<lparr>executed = [], outcome = Some (Inl (RepositoryTooLarge (sizeBytes measured)))\<rparr>
             else
               let commitLimit = min (estimatedCommits measured) MAX_COMMITS;
                   command = logCommand commitLimit
               in (case exec w command sanitizedRepoPath of
                     Inl e \<Rightarrow> \<lparr>executed = [command], outcome = Some (Inl e)\<rparr>
                   | Inr (logOutput, err) \<Rightarrow>
                       (case parseLines logOutput of
                          None \<Rightarrow> \<lparr>executed = [command], outcome = None\<rparr>
                        | Some p \<Rightarrow>
                            let sized = map (enrichSize w sanitizedRepoPath) (parsedFiles p);
                                files = map (enrichAuthors w sanitizedRepoPath) sized
                            in \<lparr>executed = command # authorCommands sized,
                                outcome = Some (Inr \<lparr>commitsOut = parsedCommits p,
                                                      filesOut = files\<rparr>)\<rparr>)))"

section \<open>Ad-hoc query gateway\<close>

record query =
  qPath :: "string option"        \<comment> \<open>\<open>searchParams.get('path')\<close>, \<open>None\<close> for \<open>null\<close>\<close>
  qFormat :: "string option"
  qMaxCount :: "string option"
  qSince :: "string option"
  qUntil :: "string option"
  qAuthor :: "string option"
  qGrep :: "string option"
  qFile :: "string option"
  qStat :: "string option"
  qNumstat :: "string option"

definition truthy :: "string option \<Rightarrow> bool" where
  \<comment> \<open>a present, non-empty string\<close>
  "truthy v = (case v of None \<Rightarrow> False | Some s \<Rightarrow> s \<noteq> [])"

definition orDefault :: "string option \<Rightarrow> string \<Rightarrow> string" where
  \<comment> \<open>\<open>v || d\<close>\<close>
  "orDefault v d = (case v of None \<Rightarrow> d | Some s \<Rightarrow> if s = [] then d else s)"

definition showNum :: "jsnum \<Rightarrow> string" where
  \<comment> \<open>the text of a number inside a template literal\<close>
  "showNum n =
     (case n of NaN \<Rightarrow> ''NaN''
      | Num k \<Rightarrow> if k < 0 then CHR ''-'' # showNat (nat (- k)) else showNat (nat k))"

definition addFilter :: "string \<Rightarrow> string \<Rightarrow> string option \<Rightarrow> string \<Rightarrow> error + string" where
  \<comment> \<open>\<open>if (v) { gitCommand += before + sanitizeGitParameter(v) + after }\<close>\<close>
  "addFilter before after v gitCommand =
     (case v of
        None \<Rightarrow> Inr gitCommand
      | Some s \<Rightarrow>
          if s = [] then Inr gitCommand
          else (case sanitizeGitParameter s of
                  Inl e \<Rightarrow> Inl e
                | Inr sanitized \<Rightarrow> Inr (gitCommand @ before @ sanitized @ after)))"

definition thenFilter :: "error + string \<Rightarrow> (string \<Rightarrow> error + string) \<Rightarrow> error + string" where
  "thenFilter r f = (case r of Inl e \<Rightarrow> Inl e | Inr gitCommand \<Rightarrow> f gitCommand)"

definition buildGitCommand :: "query \<Rightarrow> error + string" where
  \<open>buildGitCommand q =
     (let format = orDefault (qFormat q) ''pretty'';
          maxCount = parseInt (orDefault (qMaxCount q) ''100'');
          stat = (qStat q = Some ''true'');
          numstat = (qNumstat q = Some ''true'');
          gitCommand = ''git log'';
          gitCommand = gitCommand @
            (if format = ''pretty'' then '' --pretty=format:"%H|%s|%an|%ae|%ct|%P"''
             else if format = ''oneline'' then '' --oneline''
             else if format = ''short'' then '' --pretty=short''
             else []);
          gitCommand = gitCommand @ (if stat then '' --stat'' else []);
          gitCommand = gitCommand @ (if numstat then '' --numstat'' else []);
          gitCommand = gitCommand @
            (if jsGt maxCount 0 \<and> jsLeInt maxCount 1000
             then '' --max-count='' @ showNum maxCount else [])
      in thenFilter (thenFilter (thenFilter (thenFilter
           (addFilter '' --since="'' ''"'' (qSince q) gitCommand)
           (addFilter '' --until="'' ''"'' (qUntil q)))
           (addFilter '' --author="'' ''"'' (qAuthor q)))
           (addFilter '' --grep="'' ''"'' (qGrep q)))
           (addFilter '' -- "'' ''"'' (qFile q)))\<close>

datatype response =
    Status400                          \<comment> \<open>a required field is missing\<close>
  | Status404                          \<comment> \<open>the repository path is refused or not accessible\<close>
  | Status403 "string list"            \<comment> \<open>'Command not allowed', with \<open>allowedCommands\<close>\<close>
  | Status408                          \<comment> \<open>'Git operation timed out'\<close>
  | Status500                          \<comment> \<open>any other failure\<close>
  | Status200 string string string     \<comment> \<open>success: the command, stdout, stderr\<close>

definition GET :: "world \<Rightarrow> query \<Rightarrow> response" where
  \<comment> \<open>the read path, up to the command it runs and the raw output it returns\<close>
  "GET w q =
     (case qPath q of
        None \<Rightarrow> Status400
      | Some repoPath \<Rightarrow>
          if repoPath = [] then Status400
          else
            (case sanitizeRepositoryPath w repoPath of
               Inl e \<Rightarrow> Status404
             | Inr sanitizedRepoPath \<Rightarrow>
                 if \<not> access w sanitizedRepoPath then Status404
                 else
                   (case buildGitCommand q of
                      Inl e \<Rightarrow> Status500
                    | Inr gitCommand \<Rightarrow>
                        (case exec w gitCommand sanitizedRepoPath of
                           Inl (ExecFailed msg) \<Rightarrow>
                             if includesStr msg ''timeout'' then Status408 else Status500
                         | Inl e \<Rightarrow> Status500
                         | Inr (out, err) \<Rightarrow>
                             if err \<noteq> [] \<and> out = [] then Status500
                             else Status200 gitCommand out err))))"




section \<open>The complexity score as the specification words it\<close>





section \<open>Notions used to state the properties\<close>

definition liesUnder :: "string \<Rightarrow> string \<Rightarrow> bool" where
  \<comment> \<open>the normalized absolute path \<open>p\<close> is the directory \<open>base\<close> or lies below it\<close>
  "liesUnder base p =
     (p = base \<or> startsWith p (if base \<noteq> [] \<and> last base = CHR ''/'' then base else base @ ''/''))"

definition isHeaderLine :: "string \<Rightarrow> bool" where
  \<comment> \<open>the parser's test for a commit header, on a raw line\<close>
  "isHeaderLine l =
     (includesStr (trim l) ''|'' \<and> length (splitOn CHR ''|'' (trim l)) = 5)"

definition refusedLine :: "string \<Rightarrow> bool" where
  \<comment> \<open>a raw line that is read as a file-statistics line and whose path the sanitizer
      refuses\<close>
  "refusedLine l =
     (\<not> isHeaderLine l \<and> trim l \<noteq> [] \<and> matchesNumstat (trim l)
      \<and> length (splitOn (CHR 0x09) (trim l)) \<ge> 3
      \<and> isl (sanitizeFilePath (splitOn (CHR 0x09) (trim l) ! 2)))"

definition stuckAt :: "string list \<Rightarrow> parseState \<Rightarrow> bool" where
  \<comment> \<open>the loop stands at a file-statistics line of an open commit whose path the
      sanitizer refuses\<close>
  "stuckAt lines st =
     (lineIndex st < length lines \<and> currentCommit st \<noteq> None
      \<and> (let line = trim (lines ! lineIndex st)
         in \<not> (includesStr line ''|'' \<and> length (splitOn CHR ''|'' line) = 5)
            \<and> line \<noteq> [] \<and> matchesNumstat line
            \<and> length (splitOn (CHR 0x09) line) \<ge> 3
            \<and> isl (sanitizeFilePath (splitOn (CHR 0x09) line ! 2))))"

definition commitCount :: "parseState \<Rightarrow> nat" where
  \<comment> \<open>the commits that the state holds, the open one included\<close>
  "commitCount st = length (pushCommit (currentCommit st) (commits st))"

definition soundFile :: "FileData \<Rightarrow> bool" where
  \<comment> \<open>the invariant of a file record: at least one change, and first seen no later than
      last modified unless a timestamp was not a number\<close>
  "soundFile f =
     (1 \<le> totalChanges f \<and> (lastModified f = NaN \<or> jsLe (firstSeen f) (lastModified f)))"


section \<open>Sample worlds and inputs\<close>

definition sampleWorld :: "(string \<Rightarrow> fsnode option) \<Rightarrow> (string \<Rightarrow> string \<Rightarrow> error + (string \<times> string)) \<Rightarrow> world" where
  \<comment> \<open>a process started in \<open>/srv/app\<close> by a user whose home is \<open>/home/u\<close>, on the given
      file system and subprocess behaviour\<close>
  "sampleWorld fs ex =
     \<lparr>homedir = ''/home/u'', cwd = ''/srv/app'', fsLookup = fs, access = (\<lambda>p. True),
      statSize = (\<lambda>p. None), readFile = (\<lambda>p. None), exec = ex\<rparr>"

definition noFiles :: "string \<Rightarrow> fsnode option" where
  "noFiles p = None"

definition gitDirOf :: "nat \<Rightarrow> string \<Rightarrow> fsnode option" where
  \<comment> \<open>\<open>/tmp/repo/.git\<close> holds one pack file of the given size and an empty directory\<close>
  "gitDirOf sz p =
     (if p = ''/tmp/repo/.git''
      then Some (DirNode [(''objects'', DirNode [(''pack'', FileNode (Some sz))]),
                          (''refs'', DirNode [])])
      else None)"

definition execFails :: "string \<Rightarrow> string \<Rightarrow> error + (string \<times> string)" where
  "execFails command dir = Inl (ExecFailed ''fatal: not a git repository'')"

definition execGives :: "string \<Rightarrow> string \<Rightarrow> string \<Rightarrow> error + (string \<times> string)" where
  "execGives out command dir = Inr (out, [])"

definition sampleQuery :: "string \<Rightarrow> query" where
  \<comment> \<open>\<open>?path=/tmp/repo&max-count=...\<close>, nothing else given\<close>
  "sampleQuery maxCount =
     \<lparr>qPath = Some ''/tmp/repo'', qFormat = None, qMaxCount = Some maxCount, qSince = None,
      qUntil = None, qAuthor = None, qGrep = None, qFile = None, qStat = None,
      qNumstat = None\<rparr>"

definition logText :: "string list \<Rightarrow> string" where
  \<comment> \<open>the output of the log command, from its lines\<close>
  "logText ls = joinWith [CHR 0x0A] ls"

definition statLine :: "string \<Rightarrow> string \<Rightarrow> string \<Rightarrow> string" where
  \<comment> \<open>a line of \<open>--numstat\<close>: added, deleted and path, separated by tabs\<close>
  "statLine added deleted file = added @ [CHR 0x09] @ deleted @ [CHR 0x09] @ file"

chapter \<open>Properties\<close>

section \<open>Parameter sanitizers\<close>

lemma length_trim_le: "length (trim s) \<le> length s"
proof -
  have "length (dropWhile isWhitespace (rev (dropWhile isWhitespace s))) \<le> length (rev (dropWhile isWhitespace s))"
    by (rule length_dropWhile_le)
  also have "\<dots> \<le> length s" by (simp add: length_dropWhile_le)
  finally show ?thesis by (simp add: trim_def)
qed

lemma trim_id_iff:
  "trim s = s \<longleftrightarrow> (s = [] \<or> (\<not> isWhitespace (hd s) \<and> \<not> isWhitespace (last s)))"
proof (cases "s = []")
  case True then show ?thesis by (simp add: trim_def)
next
  case False
  show ?thesis
  proof (cases "isWhitespace (hd s)")
    case True
    have "length (dropWhile isWhitespace s) < length s"
      using False True by (cases s) (auto simp: le_imp_less_Suc length_dropWhile_le)
    moreover have "length (trim s) \<le> length (dropWhile isWhitespace s)"
      unfolding trim_def using length_dropWhile_le[of isWhitespace "rev (dropWhile isWhitespace s)"] by simp
    ultimately have "trim s \<noteq> s" by auto
    with True False show ?thesis by simp
  next
    case nh: False
    then have d: "dropWhile isWhitespace s = s" using False by (cases s) auto
    show ?thesis
    proof (cases "isWhitespace (last s)")
      case True
      have "rev s \<noteq> []" using False by simp
      moreover have "isWhitespace (hd (rev s))" using True False by (simp add: hd_rev)
      ultimately have "length (dropWhile isWhitespace (rev s)) < length (rev s)"
        by (cases "rev s") (auto simp: le_imp_less_Suc length_dropWhile_le)
      then have "length (trim s) < length s" by (simp add: trim_def d)
      then have "trim s \<noteq> s" by auto
      with True False show ?thesis by simp
    next
      case nl: False
      have "rev s \<noteq> []" using False by simp
      moreover have "\<not> isWhitespace (hd (rev s))" using nl False by (simp add: hd_rev)
      ultimately have "dropWhile isWhitespace (rev s) = rev s" by (cases "rev s") auto
      then have "trim s = s" by (simp add: trim_def d)
      with nh nl show ?thesis by simp
    qed
  qed
qed

lemma replaceFilePathPattern_id:
  "\<forall>c\<in>set s. \<not> isFilePathClass c \<Longrightarrow> replaceFilePathPattern s = s"
  by (induction s rule: replaceFilePathPattern.induct) auto

lemma isFilePathClass_isGitMeta: "isFilePathClass c \<Longrightarrow> isGitMeta c"
  by (auto simp: isFilePathClass_def isGitMeta_def)

lemma filter_meta_shorter:
  assumes "\<exists>c\<in>set s. isGitMeta c"
  shows "length (filter (\<lambda>c. \<not> isGitMeta c) s) < length s"
  using assms by (auto intro: length_filter_less)

text \<open>
  C5, as stated, fails twice. The file-path sanitizer of the history parser accepts
  \<open>a;b\<close>: its pattern only matches a class character that is directly followed by a
  closing bracket. And both sanitizers compare the input with its trimmed form, so a
  string free of metacharacters that starts with a blank is rejected.
\<close>

theorem sanitizers_counterexample:
  "sanitizeFilePath ''a;b'' = Inr ''a;b'' \<and> sanitizeGitParameter '' a'' = Inl InvalidParameter"
  by (simp add: sanitizeFilePath_def sanitizeGitParameter_def trim_def isWhitespace_def isFilePathClass_def isGitMeta_def)

text \<open>
  C5 (amended): the query gateway's \<open>sanitizeGitParameter\<close> throws for every string
  containing one of ; & | ` $ ( ) { } [ ] \; for a string containing none of them, both
  sanitizers return the input unchanged when it neither starts nor ends with whitespace,
  and throw when it does.
\<close>

theorem sanitizers_amended:
  "(list_ex isGitMeta s \<longrightarrow> sanitizeGitParameter s = Inl InvalidParameter)
 \<and> (\<not> list_ex isGitMeta s \<and> (s = [] \<or> (\<not> isWhitespace (hd s) \<and> \<not> isWhitespace (last s)))
      \<longrightarrow> sanitizeGitParameter s = Inr s \<and> sanitizeFilePath s = Inr s)
 \<and> (\<not> list_ex isGitMeta s \<and> s \<noteq> [] \<and> (isWhitespace (hd s) \<or> isWhitespace (last s))
      \<longrightarrow> sanitizeGitParameter s = Inl InvalidParameter \<and> sanitizeFilePath s = Inl InvalidFilePath)"
proof (intro conjI impI)
  assume "list_ex isGitMeta s"
  then have "\<exists>c\<in>set s. isGitMeta c" by (simp add: list_ex_iff)
  then have "length (filter (\<lambda>c. \<not> isGitMeta c) s) < length s" by (rule filter_meta_shorter)
  with length_trim_le[of "filter (\<lambda>c. \<not> isGitMeta c) s"]
  have "trim (filter (\<lambda>c. \<not> isGitMeta c) s) \<noteq> s" by auto
  then show "sanitizeGitParameter s = Inl InvalidParameter"
    by (simp add: sanitizeGitParameter_def)
next
  assume a: "\<not> list_ex isGitMeta s \<and> (s = [] \<or> (\<not> isWhitespace (hd s) \<and> \<not> isWhitespace (last s)))"
  then have t: "trim s = s" by (simp add: trim_id_iff)
  from a have n: "\<forall>c\<in>set s. \<not> isGitMeta c" by (simp add: list_ex_iff)
  then have f: "filter (\<lambda>c. \<not> isGitMeta c) s = s" by simp
  show "sanitizeGitParameter s = Inr s" by (simp add: sanitizeGitParameter_def f t)
  from n have "replaceFilePathPattern s = s"
    by (intro replaceFilePathPattern_id) (auto dest: isFilePathClass_isGitMeta)
  then show "sanitizeFilePath s = Inr s" by (simp add: sanitizeFilePath_def t)
next
  assume a: "\<not> list_ex isGitMeta s \<and> s \<noteq> [] \<and> (isWhitespace (hd s) \<or> isWhitespace (last s))"
  then have t: "trim s \<noteq> s" by (simp add: trim_id_iff)
  from a have n: "\<forall>c\<in>set s. \<not> isGitMeta c" by (simp add: list_ex_iff)
  then have f: "filter (\<lambda>c. \<not> isGitMeta c) s = s" by simp
  show "sanitizeGitParameter s = Inl InvalidParameter" by (simp add: sanitizeGitParameter_def f t)
  from n have "replaceFilePathPattern s = s"
    by (intro replaceFilePathPattern_id) (auto dest: isFilePathClass_isGitMeta)
  then show "sanitizeFilePath s = Inl InvalidFilePath" by (simp add: sanitizeFilePath_def t)
qed

theorem sanitizers_amended_witness:
  "list_ex isGitMeta ''a;b'' \<and> sanitizeGitParameter ''a;b'' = Inl InvalidParameter
 \<and> \<not> list_ex isGitMeta ''src/a.ts'' \<and> \<not> isWhitespace (hd ''src/a.ts'')
 \<and> \<not> isWhitespace (last ''src/a.ts'')
 \<and> sanitizeGitParameter ''src/a.ts'' = Inr ''src/a.ts''
 \<and> sanitizeFilePath ''src/a.ts'' = Inr ''src/a.ts''
 \<and> \<not> list_ex isGitMeta '' a'' \<and> isWhitespace (hd '' a'')
 \<and> sanitizeGitParameter '' a'' = Inl InvalidParameter
 \<and> sanitizeFilePath '' a'' = Inl InvalidFilePath"
  using sanitizers_amended [of "''a;b''"] sanitizers_amended [of "''src/a.ts''"]
        sanitizers_amended [of "'' a''"]
  by (simp add: isGitMeta_def isWhitespace_def)

section \<open>Repository path sanitizer\<close>

lemma includesStr_sublist: "includesStr s t \<longleftrightarrow> sublist t s"
  by (induction s) (auto simp: sublist_Cons_right)

lemma splitOn_nonempty: "splitOn sep s \<noteq> []"
  by (induction s) (auto split: list.splits)

lemma splitOn_hd_prefix: "prefix (hd (splitOn sep s)) s"
proof (induction s)
  case Nil then show ?case by simp
next
  case (Cons c cs)
  then show ?case using splitOn_nonempty[of sep cs] by (auto split: list.splits)
qed

lemma splitOn_piece_sublist: "p \<in> set (splitOn sep s) \<Longrightarrow> sublist p s"
proof (induction s arbitrary: p)
  case Nil then show ?case by simp
next
  case (Cons c cs)
  show ?case
  proof (cases "c = sep")
    case True
    with Cons.prems have "p = [] \<or> p \<in> set (splitOn sep cs)" by simp
    then show ?thesis using Cons.IH by (auto simp: sublist_Cons_right)
  next
    case False
    obtain q qs where q: "splitOn sep cs = q # qs"
      using splitOn_nonempty[of sep cs] by (cases "splitOn sep cs") auto
    with False Cons.prems have "p = c # q \<or> p \<in> set qs" by simp
    then show ?thesis
    proof
      assume "p = c # q"
      moreover have "prefix q cs" using splitOn_hd_prefix[of sep cs] q by simp
      ultimately show ?thesis by (simp add: sublist_Cons_right)
    next
      assume "p \<in> set qs"
      then have "p \<in> set (splitOn sep cs)" using q by simp
      then have "sublist p cs" by (rule Cons.IH)
      then show ?thesis by (simp add: sublist_Cons_right)
    qed
  qed
qed

lemma no_substring_no_segment:
  "\<not> includesStr r seg \<Longrightarrow> seg \<notin> set (splitOn sep r)"
  using splitOn_piece_sublist[of seg sep r] by (auto simp: includesStr_sublist)

lemma liesUnder_startsWith: "liesUnder base p \<Longrightarrow> startsWith p base"
  by (auto simp: liesUnder_def prefix_def split: if_splits)

text \<open>
  C1, as stated, fails in both directions. \<open>/tmp/~x\<close> resolves to a path below
  \<open>/tmp\<close> and is refused all the same, because the resolved path contains a tilde.
  \<open>/tmpevil/x\<close> lies below none of the four bases and is returned, because the test
  is a plain string prefix.
\<close>

theorem sanitizeRepositoryPath_counterexample:
  "posixResolve ''/srv/app'' (posixNormalize ''/tmp/~x'') = ''/tmp/~x''
 \<and> liesUnder ''/tmp'' ''/tmp/~x''
 \<and> sanitizeRepositoryPath (sampleWorld noFiles execFails) ''/tmp/~x'' = Inl InvalidPathCharacters
 \<and> posixResolve ''/srv/app'' (posixNormalize ''/tmpevil/x'') = ''/tmpevil/x''
 \<and> \<not> liesUnder ''/tmp'' ''/tmpevil/x'' \<and> \<not> liesUnder ''/var/tmp'' ''/tmpevil/x''
 \<and> \<not> liesUnder ''/home/u'' ''/tmpevil/x'' \<and> \<not> liesUnder ''/srv/app'' ''/tmpevil/x''
 \<and> sanitizeRepositoryPath (sampleWorld noFiles execFails) ''/tmpevil/x'' = Inr ''/tmpevil/x''"
  by (simp add: sanitizeRepositoryPath_def sampleWorld_def ALLOWED_BASE_DIRS_def posixResolve_def
        posixNormalize_def resolveStep_def normalizeString_def liesUnder_def)

text \<open>
  C1 (amended): let \<open>r\<close> be the normalized absolute resolution of the input. If
  \<open>r\<close> is an allowed base directory or lies below one, and contains neither \<open>..\<close> nor
  \<open>~\<close>, then \<open>sanitizeRepositoryPath\<close> returns \<open>r\<close>, which has no \<open>..\<close> segment
  and has an allowed base as a prefix. If no allowed base is a string prefix of \<open>r\<close>
  it throws the not-allowed error, and if one is but \<open>r\<close> contains \<open>..\<close> or \<open>~\<close> it
  throws the invalid-characters error.
\<close>

theorem sanitizeRepositoryPath_amended:
  assumes "r = posixResolve (cwd w) (posixNormalize repoPath)"
  shows "(list_ex (\<lambda>baseDir. liesUnder (posixResolve (cwd w) baseDir) r) (ALLOWED_BASE_DIRS w)
            \<and> \<not> includesStr r ''..'' \<and> \<not> includesStr r ''~''
          \<longrightarrow> sanitizeRepositoryPath w repoPath = Inr r
              \<and> ''..'' \<notin> set (splitOn CHR ''/'' r)
              \<and> list_ex (\<lambda>baseDir. startsWith r (posixResolve (cwd w) baseDir)) (ALLOWED_BASE_DIRS w))
       \<and> (\<not> list_ex (\<lambda>baseDir. startsWith r (posixResolve (cwd w) baseDir)) (ALLOWED_BASE_DIRS w)
          \<longrightarrow> sanitizeRepositoryPath w repoPath = Inl PathNotAllowed)
       \<and> (list_ex (\<lambda>baseDir. startsWith r (posixResolve (cwd w) baseDir)) (ALLOWED_BASE_DIRS w)
            \<and> (includesStr r ''..'' \<or> includesStr r ''~'')
          \<longrightarrow> sanitizeRepositoryPath w repoPath = Inl InvalidPathCharacters)"
proof (intro conjI impI)
  assume a: "list_ex (\<lambda>baseDir. liesUnder (posixResolve (cwd w) baseDir) r) (ALLOWED_BASE_DIRS w)
            \<and> \<not> includesStr r ''..'' \<and> \<not> includesStr r ''~''"
  then have al: "list_ex (\<lambda>baseDir. startsWith r (posixResolve (cwd w) baseDir)) (ALLOWED_BASE_DIRS w)"
    by (auto simp: list_ex_iff dest: liesUnder_startsWith)
  then show "list_ex (\<lambda>baseDir. startsWith r (posixResolve (cwd w) baseDir)) (ALLOWED_BASE_DIRS w)" .
  from a show "''..'' \<notin> set (splitOn CHR ''/'' r)" by (simp add: no_substring_no_segment)
  from a al assms show "sanitizeRepositoryPath w repoPath = Inr r"
    by (simp add: sanitizeRepositoryPath_def)
next
  assume "\<not> list_ex (\<lambda>baseDir. startsWith r (posixResolve (cwd w) baseDir)) (ALLOWED_BASE_DIRS w)"
  with assms show "sanitizeRepositoryPath w repoPath = Inl PathNotAllowed"
    by (simp add: sanitizeRepositoryPath_def)
next
  assume "list_ex (\<lambda>baseDir. startsWith r (posixResolve (cwd w) baseDir)) (ALLOWED_BASE_DIRS w)
            \<and> (includesStr r ''..'' \<or> includesStr r ''~'')"
  with assms show "sanitizeRepositoryPath w repoPath = Inl InvalidPathCharacters"
    by (auto simp add: sanitizeRepositoryPath_def)
qed

theorem sanitizeRepositoryPath_amended_witness:
  "sanitizeRepositoryPath (sampleWorld noFiles execFails) ''/tmp/work/../repo'' = Inr ''/tmp/repo''
 \<and> ''..'' \<notin> set (splitOn CHR ''/'' ''/tmp/repo'')
 \<and> sanitizeRepositoryPath (sampleWorld noFiles execFails) ''/etc/passwd'' = Inl PathNotAllowed
 \<and> sanitizeRepositoryPath (sampleWorld noFiles execFails) ''/tmp/a..b'' = Inl InvalidPathCharacters"
proof -
  let ?w = "sampleWorld noFiles execFails"
  have r1: "''/tmp/repo'' = posixResolve (cwd ?w) (posixNormalize ''/tmp/work/../repo'')"
    by (simp add: sampleWorld_def posixResolve_def posixNormalize_def resolveStep_def normalizeString_def)
  have r2: "''/etc/passwd'' = posixResolve (cwd ?w) (posixNormalize ''/etc/passwd'')"
    by (simp add: sampleWorld_def posixResolve_def posixNormalize_def resolveStep_def normalizeString_def)
  have r3: "''/tmp/a..b'' = posixResolve (cwd ?w) (posixNormalize ''/tmp/a..b'')"
    by (simp add: sampleWorld_def posixResolve_def posixNormalize_def resolveStep_def normalizeString_def)
  have h1: "list_ex (\<lambda>baseDir. liesUnder (posixResolve (cwd ?w) baseDir) ''/tmp/repo'') (ALLOWED_BASE_DIRS ?w)
            \<and> \<not> includesStr ''/tmp/repo'' ''..'' \<and> \<not> includesStr ''/tmp/repo'' ''~''"
    by (simp add: sampleWorld_def ALLOWED_BASE_DIRS_def posixResolve_def resolveStep_def
          normalizeString_def liesUnder_def)
  have h2: "\<not> list_ex (\<lambda>baseDir. startsWith ''/etc/passwd'' (posixResolve (cwd ?w) baseDir)) (ALLOWED_BASE_DIRS ?w)"
    by (simp add: sampleWorld_def ALLOWED_BASE_DIRS_def posixResolve_def resolveStep_def
          normalizeString_def)
  have h3: "list_ex (\<lambda>baseDir. startsWith ''/tmp/a..b'' (posixResolve (cwd ?w) baseDir)) (ALLOWED_BASE_DIRS ?w)
            \<and> (includesStr ''/tmp/a..b'' ''..'' \<or> includesStr ''/tmp/a..b'' ''~'')"
    by (simp add: sampleWorld_def ALLOWED_BASE_DIRS_def posixResolve_def resolveStep_def
          normalizeString_def)
  from sanitizeRepositoryPath_amended[OF r1] h1
  have c1: "sanitizeRepositoryPath ?w ''/tmp/work/../repo'' = Inr ''/tmp/repo''
            \<and> ''..'' \<notin> set (splitOn CHR ''/'' ''/tmp/repo'')" by blast
  from sanitizeRepositoryPath_amended[OF r2] h2
  have c2: "sanitizeRepositoryPath ?w ''/etc/passwd'' = Inl PathNotAllowed" by blast
  from sanitizeRepositoryPath_amended[OF r3] h3
  have c3: "sanitizeRepositoryPath ?w ''/tmp/a..b'' = Inl InvalidPathCharacters" by blast
  from c1 c2 c3 show ?thesis by blast
qed

section \<open>Sample inputs\<close>

lemma sample_repo_ok: "sanitizeRepositoryPath (sampleWorld fs ex) ''/tmp/repo'' = Inr ''/tmp/repo''"
  by (simp add: sanitizeRepositoryPath_def sampleWorld_def ALLOWED_BASE_DIRS_def posixResolve_def
      posixNormalize_def resolveStep_def normalizeString_def)

section \<open>Repository size guard\<close>

lemma gitDir_size: "checkRepositorySize (sampleWorld (gitDirOf sz) ex) ''/tmp/repo''
   = \<lparr>sizeBytes = sz, estimatedCommits = sz div 1024\<rparr>"
  by (simp add: checkRepositorySize_def getDirectorySize_def sampleWorld_def gitDirOf_def
       posixJoin_def posixNormalize_def normalizeString_def)

lemma digitValue_digit: "d < 10 \<Longrightarrow> digitValue (char_of (48 + d)) = d"
  by (simp add: digitValue_def)

lemma radixValue_snoc: "radixValue r (ds @ [c]) = radixValue r ds * int r + int (digitValue c)"
  by (simp add: radixValue_def)

lemma showNat_value: "radixValue 10 (showNat n) = int n"
proof (induction n rule: showNat.induct)
  case (1 n)
  show ?case
  proof (cases "n < 10")
    case True
    then show ?thesis
      by (subst showNat.simps) (simp add: radixValue_def digitValue_digit)
  next
    case False
    have "radixValue 10 (showNat n)
            = radixValue 10 (showNat (n div 10)) * 10 + int (digitValue (char_of (48 + n mod 10)))"
      using False by (subst showNat.simps) (simp add: radixValue_snoc)
    also have "\<dots> = int (n div 10) * 10 + int (n mod 10)"
      using "1.IH"[OF False] by (simp add: digitValue_digit)
    also have "\<dots> = int n" by (simp add: zdiv_int zmod_int)
    finally show ?thesis .
  qed
qed

text \<open>
  C3: once the repository path is accepted, a measured \<open>sizeBytes\<close> above 50 MiB makes
  \<open>parseGitLog\<close> throw the repository-too-large error with no command handed to the
  subprocess at all; otherwise the first command it runs is the log command, whose text
  ends in \<open>--max-count=\<close> followed by the decimal digits of
  \<open>min(estimatedCommits, 1000)\<close>.
\<close>

theorem size_guard:
  assumes \<open>sanitizeRepositoryPath w repoPath = Inr p\<close>
  shows \<open>(sizeBytes (checkRepositorySize w p) > 50 * 1024 * 1024 \<longrightarrow>
            parseGitLog w repoPath =
              \<lparr>executed = [],
               outcome = Some (Inl (RepositoryTooLarge (sizeBytes (checkRepositorySize w p))))\<rparr>)
       \<and> (sizeBytes (checkRepositorySize w p) \<le> 50 * 1024 * 1024 \<longrightarrow>
            executed (parseGitLog w repoPath) \<noteq> []
            \<and> hd (executed (parseGitLog w repoPath))
                = ''git log --pretty=format:"%H|%s|%an|%ae|%ct" --numstat --max-count=''
                    @ showNat (min (estimatedCommits (checkRepositorySize w p)) 1000)
            \<and> radixValue 10 (showNat (min (estimatedCommits (checkRepositorySize w p)) 1000))
                = int (min (estimatedCommits (checkRepositorySize w p)) 1000))\<close>
  using assms
  by (simp add: parseGitLog_def MAX_REPO_SIZE_def MAX_COMMITS_def Let_def logCommand_def
                showNat_value
           split: sum.splits prod.splits option.splits)

theorem size_guard_witness:
  \<open>parseGitLog (sampleWorld (gitDirOf 62914560) execFails) ''/tmp/repo''
     = \<lparr>executed = [], outcome = Some (Inl (RepositoryTooLarge 62914560))\<rparr>
 \<and> executed (parseGitLog (sampleWorld (gitDirOf 5242880) execFails) ''/tmp/repo'')
     = [''git log --pretty=format:"%H|%s|%an|%ae|%ct" --numstat --max-count=1000'']
 \<and> hd (executed (parseGitLog (sampleWorld (gitDirOf 204800) execFails) ''/tmp/repo''))
     = ''git log --pretty=format:"%H|%s|%an|%ae|%ct" --numstat --max-count=200''\<close>
proof -
  have big: "sizeBytes (checkRepositorySize (sampleWorld (gitDirOf 62914560) execFails) ''/tmp/repo'') > 50 * 1024 * 1024"
    by (simp add: gitDir_size)
  have mid: "sizeBytes (checkRepositorySize (sampleWorld (gitDirOf 5242880) execFails) ''/tmp/repo'') \<le> 50 * 1024 * 1024"
    by (simp add: gitDir_size)
  have small: "sizeBytes (checkRepositorySize (sampleWorld (gitDirOf 204800) execFails) ''/tmp/repo'') \<le> 50 * 1024 * 1024"
    by (simp add: gitDir_size)
  have n1: "showNat 1000 = ''1000''" by code_simp
  have n2: "showNat 200 = ''200''" by code_simp
  have one: "executed (parseGitLog (sampleWorld (gitDirOf 5242880) execFails) ''/tmp/repo'')
               = [hd (executed (parseGitLog (sampleWorld (gitDirOf 5242880) execFails) ''/tmp/repo''))]"
    by (simp add: parseGitLog_def sample_repo_ok gitDir_size MAX_REPO_SIZE_def Let_def)
       (simp add: sampleWorld_def execFails_def)
  from size_guard[OF sample_repo_ok, of "gitDirOf 62914560" execFails] big
  have a: "parseGitLog (sampleWorld (gitDirOf 62914560) execFails) ''/tmp/repo''
     = \<lparr>executed = [], outcome = Some (Inl (RepositoryTooLarge 62914560))\<rparr>"
    by (simp add: gitDir_size)
  from size_guard[OF sample_repo_ok, of "gitDirOf 5242880" execFails] mid
  have b: \<open>hd (executed (parseGitLog (sampleWorld (gitDirOf 5242880) execFails) ''/tmp/repo''))
     = ''git log --pretty=format:"%H|%s|%an|%ae|%ct" --numstat --max-count=1000''\<close>
    by (simp add: gitDir_size n1)
  from size_guard[OF sample_repo_ok, of "gitDirOf 204800" execFails] small
  have c: \<open>hd (executed (parseGitLog (sampleWorld (gitDirOf 204800) execFails) ''/tmp/repo''))
     = ''git log --pretty=format:"%H|%s|%an|%ae|%ct" --numstat --max-count=200''\<close>
    by (simp add: gitDir_size n2)
  from a b c one show ?thesis by simp
qed

lemma parseLines_empty: "parseLines [] = Some \<lparr>parsedCommits = [], parsedFiles = [], parsedWarnings = []\<rparr>"
  by code_simp

text \<open>
  C10, as stated, fails: with the \<open>.git\<close> directory missing the size check passes and
  the log command runs with limit 0, but when that command fails (as git does outside a
  repository) the run ends with that error.
\<close>

theorem missing_git_dir_counterexample:
  "fsLookup (sampleWorld noFiles execFails) (posixJoin ''/tmp/repo'' ''.git'') = None
 \<and> checkRepositorySize (sampleWorld noFiles execFails) ''/tmp/repo''
      = \<lparr>sizeBytes = 0, estimatedCommits = 0\<rparr>
 \<and> parseGitLog (sampleWorld noFiles execFails) ''/tmp/repo''
      = \<lparr>executed = [logCommand 0],
         outcome = Some (Inl (ExecFailed ''fatal: not a git repository''))\<rparr>"
  by (simp add: parseGitLog_def sample_repo_ok checkRepositorySize_def getDirectorySize_def
        MAX_REPO_SIZE_def MAX_COMMITS_def)
     (simp add: sampleWorld_def noFiles_def execFails_def)

text \<open>
  C10 (amended): if the \<open>.git\<close> directory of an accepted repository path is missing or
  cannot be listed, \<open>checkRepositorySize\<close> returns 0 bytes and 0 commits, the size check
  passes and the log command is run with limit 0. If that command succeeds with empty
  output, the run returns no commits and no files and runs nothing else; if it fails,
  the run throws that failure.
\<close>

theorem missing_git_dir_amended:
  assumes "sanitizeRepositoryPath w repoPath = Inr p"
    and "fsLookup w (posixJoin p ''.git'') = None \<or> fsLookup w (posixJoin p ''.git'') = Some UnreadableDir"
  shows "checkRepositorySize w p = \<lparr>sizeBytes = 0, estimatedCommits = 0\<rparr>
       \<and> executed (parseGitLog w repoPath) \<noteq> []
       \<and> hd (executed (parseGitLog w repoPath)) = logCommand 0
       \<and> (exec w (logCommand 0) p = Inr ([], err) \<longrightarrow>
            parseGitLog w repoPath =
              \<lparr>executed = [logCommand 0],
               outcome = Some (Inr \<lparr>commitsOut = [], filesOut = []\<rparr>)\<rparr>)
       \<and> (exec w (logCommand 0) p = Inl e \<longrightarrow>
            parseGitLog w repoPath = \<lparr>executed = [logCommand 0], outcome = Some (Inl e)\<rparr>)"
proof -
  from assms(2) have sz: "checkRepositorySize w p = \<lparr>sizeBytes = 0, estimatedCommits = 0\<rparr>"
    by (auto simp: checkRepositorySize_def getDirectorySize_def)
  show ?thesis
    using assms(1) sz
    by (simp add: parseGitLog_def MAX_REPO_SIZE_def MAX_COMMITS_def parseLines_empty authorCommands_def Let_def
           split: sum.splits prod.splits option.splits)
qed

theorem missing_git_dir_amended_witness:
  "parseGitLog (sampleWorld noFiles (execGives [])) ''/tmp/repo''
     = \<lparr>executed = [logCommand 0], outcome = Some (Inr \<lparr>commitsOut = [], filesOut = []\<rparr>)\<rparr>
 \<and> parseGitLog (sampleWorld noFiles execFails) ''/tmp/repo''
     = \<lparr>executed = [logCommand 0], outcome = Some (Inl (ExecFailed ''fatal: not a git repository''))\<rparr>"
proof -
  have a: "fsLookup (sampleWorld noFiles ex) (posixJoin ''/tmp/repo'' ''.git'') = None
      \<or> fsLookup (sampleWorld noFiles ex) (posixJoin ''/tmp/repo'' ''.git'') = Some UnreadableDir" for ex
    by (simp add: sampleWorld_def noFiles_def)
  have e1: "exec (sampleWorld noFiles (execGives [])) (logCommand 0) ''/tmp/repo'' = Inr ([], [])"
    by (simp add: sampleWorld_def execGives_def)
  have e2: "exec (sampleWorld noFiles execFails) (logCommand 0) ''/tmp/repo'' = Inl (ExecFailed ''fatal: not a git repository'')"
    by (simp add: sampleWorld_def execFails_def)
  from missing_git_dir_amended[OF sample_repo_ok a, of "execGives []" "[]"] e1
       missing_git_dir_amended[OF sample_repo_ok a, of execFails _ "ExecFailed ''fatal: not a git repository''"] e2
  show ?thesis by simp
qed

section \<open>History parser: a refused file path\<close>

text \<open>
  A state that stands at a refused file line of an open commit is followed by such a state
  again, so the loop cannot return from it.
\<close>

lemma parseStep_stuck: "stuckAt lines st \<Longrightarrow> stuckAt lines (parseStep lines st)"
  by (auto simp: stuckAt_def parseStep_def fileLine_def Let_def isl_def split: option.splits)

lemma parseLoop_Some_not_stuck:
  assumes a: "parseLoop lines st = Some r"
  shows "\<not> stuckAt lines st"
proof (rule parseLoop.raw_induct[where P = "\<lambda>l s y. \<not> stuckAt l s", OF _ a])
  fix f l s y
  assume IH: "\<And>l' s' y'. f l' s' = Some y' \<Longrightarrow> \<not> stuckAt l' s'"
    and eq: "(if lineIndex s < length l then f l (parseStep l s) else Some s) = Some y"
  show "\<not> stuckAt l s"
  proof
    assume st: "stuckAt l s"
    then have "lineIndex s < length l" by (simp add: stuckAt_def)
    with eq have "f l (parseStep l s) = Some y" by simp
    then have "\<not> stuckAt l (parseStep l s)" by (rule IH)
    with parseStep_stuck[OF st] show False by simp
  qed
qed

lemma parseLoop_stuck: "stuckAt lines st \<Longrightarrow> parseLoop lines st = None"
  using parseLoop_Some_not_stuck[of lines st] by (cases "parseLoop lines st") auto

lemma parseLoop_step:
  "lineIndex st < length lines \<Longrightarrow> parseLoop lines st = parseLoop lines (parseStep lines st)"
  by (subst parseLoop.simps) simp

text \<open>
  What holds for every stream. As long as no line is a file-statistics line with a
  refused path, every round of the loop advances by one line, so the parser returns, and
  it returns one commit for each line that has five fields; a line with four fields adds
  none. Whatever stream the parser returns from, it has never logged a malformed header,
  and every file record has at least one change and was first seen no later than last
  modified (unless a commit's timestamp was not a number).
\<close>

lemma parseLoop_done: "\<not> lineIndex st < length lines \<Longrightarrow> parseLoop lines st = Some st"
  by (subst parseLoop.simps) simp

lemma parseStep_advances:
  assumes "\<not> refusedLine (lines ! lineIndex st)"
  shows "lineIndex (parseStep lines st) = Suc (lineIndex st)"
  using assms
  by (auto simp: parseStep_def fileLine_def refusedLine_def isHeaderLine_def Let_def isl_def
           split: option.splits sum.splits)

lemma parseStep_commitCount:
  assumes "\<not> refusedLine (lines ! lineIndex st)"
  shows "commitCount (parseStep lines st)
           = commitCount st + (if isHeaderLine (lines ! lineIndex st) then 1 else 0)"
  using assms
  by (auto simp: parseStep_def fileLine_def refusedLine_def isHeaderLine_def Let_def isl_def
                 commitCount_def pushCommit_def
           split: option.splits sum.splits)

lemma parseLoop_total:
  assumes "\<forall>l\<in>set lines. \<not> refusedLine l"
  shows "\<exists>r. parseLoop lines st = Some r
            \<and> commitCount r = commitCount st + length (filter isHeaderLine (drop (lineIndex st) lines))"
proof (induction "length lines - lineIndex st" arbitrary: st)
  case 0
  then have "\<not> lineIndex st < length lines" by simp
  then show ?case by (simp add: parseLoop_done)
next
  case (Suc n)
  then have lt: "lineIndex st < length lines" by simp
  with assms have ok: "\<not> refusedLine (lines ! lineIndex st)" by simp
  have adv: "lineIndex (parseStep lines st) = Suc (lineIndex st)" using ok by (rule parseStep_advances)
  with Suc(2) have "n = length lines - lineIndex (parseStep lines st)" by simp
  from Suc(1)[OF this] obtain r where r: "parseLoop lines (parseStep lines st) = Some r"
    "commitCount r = commitCount (parseStep lines st)
        + length (filter isHeaderLine (drop (lineIndex (parseStep lines st)) lines))" by blast
  have d: "drop (lineIndex st) lines = lines ! lineIndex st # drop (Suc (lineIndex st)) lines"
    using lt by (simp add: Cons_nth_drop_Suc)
  show ?case
    using r lt by (simp add: parseLoop_step parseStep_commitCount[OF ok] adv d)
qed

lemma parse_commit_count:
  assumes "\<forall>l\<in>set (splitOn (CHR 0x0A) out). \<not> refusedLine l"
  shows "\<exists>p. parseLines out = Some p
            \<and> length (parsedCommits p) = length (filter isHeaderLine (splitOn (CHR 0x0A) out))"
proof -
  from parseLoop_total[OF assms, of initialState]
  obtain r where "parseLoop (splitOn (CHR 0x0A) out) initialState = Some r"
    "commitCount r = length (filter isHeaderLine (splitOn (CHR 0x0A) out))"
    by (auto simp: initialState_def commitCount_def pushCommit_def)
  then show ?thesis by (simp add: parseLines_def commitCount_def)
qed

lemma parseLoop_invariant:
  assumes a: "parseLoop lines st = Some r"
    and i: "I st"
    and step: "\<And>s. I s \<Longrightarrow> lineIndex s < length lines \<Longrightarrow> I (parseStep lines s)"
  shows "I r"
proof -
  have "lines = lines \<longrightarrow> I st \<longrightarrow> I r"
  proof (rule parseLoop.raw_induct[where P = "\<lambda>l s y. l = lines \<longrightarrow> I s \<longrightarrow> I y", OF _ a])
    fix f l s y
    assume IH: "\<And>l' s' y'. f l' s' = Some y' \<Longrightarrow> l' = lines \<longrightarrow> I s' \<longrightarrow> I y'"
      and eq: "(if lineIndex s < length l then f l (parseStep l s) else Some s) = Some y"
    show "l = lines \<longrightarrow> I s \<longrightarrow> I y"
    proof (intro impI)
      assume l: "l = lines" and s: "I s"
      show "I y"
      proof (cases "lineIndex s < length l")
        case True
        with eq have "f l (parseStep l s) = Some y" by simp
        from IH[OF this] l step[OF s] True show ?thesis by simp
      next
        case False
        with eq s show ?thesis by simp
      qed
    qed
  qed
  with i show ?thesis by simp
qed

lemma malformed_warning_unreachable:
  assumes "parseLines out = Some p"
  shows "MalformedCommitLine l \<notin> set (parsedWarnings p)"
proof -
  from assms obtain r where r: "parseLoop (splitOn (CHR 0x0A) out) initialState = Some r"
    and p: "parsedWarnings p = warnings r"
    by (auto simp: parseLines_def split: option.splits)
  have "MalformedCommitLine l \<notin> set (warnings r)"
  proof (rule parseLoop_invariant[OF r, where I = "\<lambda>s. MalformedCommitLine l \<notin> set (warnings s)"])
    show "MalformedCommitLine l \<notin> set (warnings initialState)" by (simp add: initialState_def)
  next
    fix s :: parseState
    assume "MalformedCommitLine l \<notin> set (warnings s)"
    then show "MalformedCommitLine l \<notin> set (warnings (parseStep (splitOn (CHR 0x0A) out) s))"
      by (auto simp: parseStep_def fileLine_def Let_def split: option.splits sum.splits)
  qed
  with p show ?thesis by simp
qed

lemma trackFile_sound:
  assumes "\<forall>f\<in>snd ` set fm. soundFile f"
  shows "\<forall>f\<in>snd ` set (trackFile k d fm). soundFile f"
proof -
  have new: "soundFile \<lparr>path = k, extension = e, firstSeen = d, lastModified = d, totalChanges = 1,
       currentSize = 0, isDeleted = False, language = g, maxComplexity = None,
       avgComplexity = None, primaryAuthors = None\<rparr>" for e g
    by (cases d) (simp_all add: soundFile_def jsLe_def)
  have upd: "soundFile (f\<lparr>lastModified := jsMax (lastModified f) d, totalChanges := totalChanges f + 1\<rparr>)"
    if "soundFile f" for f
    using that by (cases "lastModified f"; cases d; cases "firstSeen f")
      (auto simp: soundFile_def jsLe_def jsMax_def)
  have set_upd: "snd ` set (AList.update k v fm) \<subseteq> insert v (snd ` set fm)" for v
    by (induction fm) auto
  show ?thesis
  proof (cases "map_of fm k")
    case None
    then show ?thesis using assms new set_upd by (fastforce simp: trackFile_def)
  next
    case (Some f)
    then have "f \<in> snd ` set fm" by (force dest: map_of_SomeD)
    with assms have "soundFile f" by blast
    from upd[OF this] show ?thesis using Some assms set_upd by (fastforce simp: trackFile_def)
  qed
qed

lemma file_records_sound:
  assumes "parseLines out = Some p" and "(k, f) \<in> set (parsedFiles p)"
  shows "1 \<le> totalChanges f \<and> (lastModified f = NaN \<or> jsLe (firstSeen f) (lastModified f))"
proof -
  from assms obtain r where r: "parseLoop (splitOn (CHR 0x0A) out) initialState = Some r"
    and p: "parsedFiles p = fileMap r"
    by (auto simp: parseLines_def split: option.splits)
  have "\<forall>f\<in>snd ` set (fileMap r). soundFile f"
  proof (rule parseLoop_invariant[OF r, where I = "\<lambda>s. \<forall>f\<in>snd ` set (fileMap s). soundFile f"])
    show "\<forall>f\<in>snd ` set (fileMap initialState). soundFile f" by (simp add: initialState_def)
  next
    fix s :: parseState
    assume a: "\<forall>f\<in>snd ` set (fileMap s). soundFile f"
    show "\<forall>f\<in>snd ` set (fileMap (parseStep (splitOn (CHR 0x0A) out) s)). soundFile f"
      using a trackFile_sound[OF a]
      by (auto simp: parseStep_def fileLine_def Let_def split: option.splits sum.splits)
  qed
  with assms(2) p have "soundFile f" by force
  then show ?thesis by (simp add: soundFile_def)
qed

text \<open>
  C2 does not hold of the code: on a file-statistics line whose path the sanitizer
  refuses, the \<open>catch\<close> branch runs \<open>continue\<close> before \<open>i\<close> is advanced, so the loop
  meets the same line again and again and the parser never returns, neither on its own
  nor inside \<open>parseGitLog\<close>; the same stream without that line is parsed to one commit.
\<close>

theorem bad_path_never_returns:
  "sanitizeFilePath ''docs/notes[].md'' = Inl InvalidFilePath
 \<and> parseLines (logText [''abc|fix|Al|al@x|1700000000'', statLine ''1'' ''1'' ''docs/notes[].md'']) = None
 \<and> outcome (parseGitLog (sampleWorld noFiles
        (execGives (logText [''abc|fix|Al|al@x|1700000000'', statLine ''1'' ''1'' ''docs/notes[].md''])))
        ''/tmp/repo'') = None
 \<and> parseLines ''abc|fix|Al|al@x|1700000000''
     = Some \<lparr>parsedCommits = [\<lparr>sha = ''abc'', message = ''fix'', author = ''Al'',
                  authorEmail = ''al@x'', date = Num 1700000000000, filesChanged = [],
                  linesAdded = 0, linesDeleted = 0, tags = []\<rparr>],
              parsedFiles = [], parsedWarnings = []\<rparr>"
proof -
  let ?out = "logText [''abc|fix|Al|al@x|1700000000'', statLine ''1'' ''1'' ''docs/notes[].md'']"
  let ?lines = "[''abc|fix|Al|al@x|1700000000'', statLine ''1'' ''1'' ''docs/notes[].md'']"
  have s: "sanitizeFilePath ''docs/notes[].md'' = Inl InvalidFilePath" by code_simp
  have l: "splitOn (CHR 0x0A) ?out = ?lines" by code_simp
  have st: "stuckAt ?lines (parseStep ?lines initialState)" by code_simp
  have "parseLoop ?lines initialState = parseLoop ?lines (parseStep ?lines initialState)"
    by (rule parseLoop_step) (simp add: initialState_def)
  also have "\<dots> = None" using st by (rule parseLoop_stuck)
  finally have p: "parseLines ?out = None" by (simp add: parseLines_def l)
  have g: "outcome (parseGitLog (sampleWorld noFiles (execGives ?out)) ''/tmp/repo'') = None"
    using p
    by (simp add: parseGitLog_def sample_repo_ok checkRepositorySize_def getDirectorySize_def
          MAX_REPO_SIZE_def Let_def)
       (simp add: sampleWorld_def noFiles_def execGives_def)
  have q: "parseLines ''abc|fix|Al|al@x|1700000000''
     = Some \<lparr>parsedCommits = [\<lparr>sha = ''abc'', message = ''fix'', author = ''Al'',
                  authorEmail = ''al@x'', date = Num 1700000000000, filesChanged = [],
                  linesAdded = 0, linesDeleted = 0, tags = []\<rparr>],
              parsedFiles = [], parsedWarnings = []\<rparr>" by code_simp
  from s p g q show ?thesis by blast
qed

section \<open>History parser: a malformed header\<close>

text \<open>
  C7 does not hold of the code in one respect: a header with four fields is passed over
  and the other commits are produced (here two of three), but nothing is logged. The
  warning sits behind the test for five fields that the line has already failed. The
  file line of the malformed header is counted for the commit before it.
\<close>

theorem malformed_header_not_logged:
  "map_option (map (\<lambda>c. (sha c, filesChanged c)) \<circ> parsedCommits)
     (parseLines (logText [''aaa|first|Al|al@x|1700000300'', statLine ''1'' ''0'' ''src/a.ts'',
                           ''bbb|second|Bo|bo@x'', statLine ''2'' ''0'' ''src/b.ts'',
                           ''ccc|third|Cy|cy@x|1700000100'', statLine ''3'' ''0'' ''src/c.ts'']))
     = Some [(''aaa'', [''src/a.ts'', ''src/b.ts'']), (''ccc'', [''src/c.ts''])]
 \<and> map_option parsedWarnings
     (parseLines (logText [''aaa|first|Al|al@x|1700000300'', statLine ''1'' ''0'' ''src/a.ts'',
                           ''bbb|second|Bo|bo@x'', statLine ''2'' ''0'' ''src/b.ts'',
                           ''ccc|third|Cy|cy@x|1700000100'', statLine ''3'' ''0'' ''src/c.ts'']))
     = Some []"
  by code_simp

section \<open>History parser: aggregates\<close>

text \<open>
  C9 does not hold of the code: for a file touched in three commits with added/deleted
  (2,0), (0,1), (5,3) the record has \<open>totalChanges = 3\<close> and the commits have
  \<open>linesAdded\<close> 2, 0, 5, but \<open>linesDeleted\<close> is 0 in every commit: the deleted count is
  looked for inside the first tab-separated field, which holds the added count only.
\<close>

theorem lines_deleted_lost:
  "map_option (map linesAdded \<circ> parsedCommits)
     (parseLines (logText [''aaa|one|Al|al@x|1700000300'', statLine ''2'' ''0'' ''src/a.ts'',
                           ''bbb|two|Al|al@x|1700000200'', statLine ''0'' ''1'' ''src/a.ts'',
                           ''ccc|three|Al|al@x|1700000100'', statLine ''5'' ''3'' ''src/a.ts'']))
     = Some [2, 0, 5]
 \<and> map_option (map linesDeleted \<circ> parsedCommits)
     (parseLines (logText [''aaa|one|Al|al@x|1700000300'', statLine ''2'' ''0'' ''src/a.ts'',
                           ''bbb|two|Al|al@x|1700000200'', statLine ''0'' ''1'' ''src/a.ts'',
                           ''ccc|three|Al|al@x|1700000100'', statLine ''5'' ''3'' ''src/a.ts'']))
     = Some [0, 0, 0]
 \<and> map_option (map (\<lambda>(k, f). (k, totalChanges f, firstSeen f, lastModified f)) \<circ> parsedFiles)
     (parseLines (logText [''aaa|one|Al|al@x|1700000300'', statLine ''2'' ''0'' ''src/a.ts'',
                           ''bbb|two|Al|al@x|1700000200'', statLine ''0'' ''1'' ''src/a.ts'',
                           ''ccc|three|Al|al@x|1700000100'', statLine ''5'' ''3'' ''src/a.ts'']))
     = Some [(''src/a.ts'', 3, Num 1700000300000, Num 1700000300000)]"
  by code_simp

section \<open>Complexity scorer\<close>

















section \<open>Query gateway: the commit limit\<close>

text \<open>
  C4 does not hold of the code: a request with \<open>max-count=5000\<close> builds, and runs, a log
  command with no \<open>--max-count\<close> at all, so nothing bounds the number of commits; only a
  value from 1 to 1000 reaches the command.
\<close>

theorem max_count_dropped:
  \<open>buildGitCommand (sampleQuery ''5000'') = Inr ''git log --pretty=format:"%H|%s|%an|%ae|%ct|%P"''
 \<and> GET (sampleWorld noFiles (execGives ''abc'')) (sampleQuery ''5000'')
     = Status200 ''git log --pretty=format:"%H|%s|%an|%ae|%ct|%P"'' ''abc'' []
 \<and> buildGitCommand (sampleQuery ''1000'')
     = Inr ''git log --pretty=format:"%H|%s|%an|%ae|%ct|%P" --max-count=1000''\<close>
  by code_simp

section \<open>Raw-command gateway\<close>




end
